theory Spec2Isabelle
  imports Main "HOL-Library.Sublist"
begin

section \<open>JavaScript strings\<close>

text \<open>
  A JavaScript string is a sequence of UTF-16 code units. The model uses \<^typ>\<open>string\<close>, a
  list of 8-bit characters, read as the strings whose code units are all below 256
  (Latin-1). On that range the built-ins below are exact: \<open>startsWith\<close> is
  \<^const>\<open>prefix\<close>, \<open>substring(n)\<close> is \<^const>\<open>drop\<close>, \<open>+\<close> is \<open>@\<close>.
\<close>

definition startsWith :: "string \<Rightarrow> string \<Rightarrow> bool" where
  "startsWith s p = prefix p s"

definition substring :: "string \<Rightarrow> nat \<Rightarrow> string" where
  "substring s n = drop n s"

text \<open>\<open>s.includes(t)\<close>: some position of \<open>s\<close> at which \<open>t\<close> starts.\<close>

fun includes_str :: "string \<Rightarrow> string \<Rightarrow> bool" where
  "includes_str [] t = (t = [])"
| "includes_str (c # cs) t = (prefix t (c # cs) \<or> includes_str cs t)"

text \<open>\<open>s.split(sep)\<close> for a one-character separator; the result is never empty.\<close>

fun split :: "string \<Rightarrow> char \<Rightarrow> string list" where
  "split [] sep = [[]]"
| "split (c # cs) sep =
     (if c = sep then [] # split cs sep
      else (case split cs sep of [] \<Rightarrow> [[c]] | x # xs \<Rightarrow> (c # x) # xs))"

text \<open>\<open>s.replace(pat, rep)\<close> with a string pattern: the first occurrence only.\<close>

fun replace :: "string \<Rightarrow> string \<Rightarrow> string \<Rightarrow> string" where
  "replace [] pat rep = (if pat = [] then rep else [])"
| "replace (c # cs) pat rep =
     (if prefix pat (c # cs) then rep @ drop (length pat) (c # cs)
      else c # replace cs pat rep)"

text \<open>
  The ECMAScript white space and line terminator code units below 256: TAB, LF, VT, FF,
  CR, SPACE and NO-BREAK SPACE.
\<close>

definition isWhiteSpace :: "char \<Rightarrow> bool" where
  "isWhiteSpace c = (c \<in> set [CHR 0x09, CHR 0x0A, CHR 0x0B, CHR 0x0C, CHR 0x0D, CHR 0x20, CHR 0xA0])"

definition trim :: "string \<Rightarrow> string" where
  "trim s = rev (dropWhile isWhiteSpace (rev (dropWhile isWhiteSpace s)))"

text \<open>
  \<open>String.prototype.toLowerCase\<close> follows the Unicode case mappings. Beyond Latin-1
  these depend on the context (a capital sigma at the end of a word) and can change the
  length of the string, so the definitions that call it take the platform's function as
  the parameter \<open>lower\<close>. On strings of code units below 256 it is \<open>toLowerCase\<close> below,
  which acts on each code unit: A-Z and the Latin-1 capitals U+00C0..U+00DE (without the
  multiplication sign U+00D7) move up by 32, all else is unchanged. Bit 5 (value 32) is
  clear in every one of these capitals, so adding 32 is setting that bit.
\<close>

definition lowerChar :: "char \<Rightarrow> char" where
  "lowerChar c =
     (let n = (of_char c :: nat)
      in if (65 \<le> n \<and> n \<le> 90) \<or> (192 \<le> n \<and> n \<le> 222 \<and> n \<noteq> 215)
         then (case c of Char b0 b1 b2 b3 b4 b5 b6 b7 \<Rightarrow> Char b0 b1 b2 b3 b4 True b6 b7)
         else c)"

definition toLowerCase :: "string \<Rightarrow> string" where
  "toLowerCase s = map lowerChar s"

section \<open>InputArea: the intent prefix buttons\<close>

text \<open>
  \<open>handleExplainClick\<close>, \<open>handleExamModeClick\<close> and \<open>handleChartClick\<close> share one body:
  \<open>prefixesToRemove.forEach\<close> strips each conflicting prefix in turn from \<open>newText\<close>,
  then the button's own prefix is removed when present and prepended otherwise. The
  result is the new \<open>inputText\<close>.
\<close>

definition removePrefix :: "string \<Rightarrow> string \<Rightarrow> string" where
  "removePrefix newText p = (if startsWith newText p then substring newText (length p) else newText)"

definition togglePrefix :: "string \<Rightarrow> string list \<Rightarrow> string \<Rightarrow> string" where
  "togglePrefix pfx prefixesToRemove inputText =
     (let newText = foldl removePrefix inputText prefixesToRemove
      in if startsWith newText pfx then substring newText (length pfx)
         else pfx @ newText)"

definition handleExplainClick :: "string \<Rightarrow> string" where
  "handleExplainClick inputText =
     togglePrefix ''Explain the concept of '' [''Exam Note: '', ''Generate Image: ''] inputText"

definition handleExamModeClick :: "string \<Rightarrow> string" where
  "handleExamModeClick inputText =
     togglePrefix ''Exam Note: '' [''Explain the concept of '', ''Generate Image: ''] inputText"

definition handleChartClick :: "string \<Rightarrow> string" where
  "handleChartClick inputText =
     togglePrefix ''Generate Image: '' [''Explain the concept of '', ''Exam Note: ''] inputText"

text \<open>
  The three prefixes the buttons know, and the drafts that begin with one of them.
\<close>

definition intentPrefixes :: "string list" where
  "intentPrefixes = [''Generate Image: '', ''Exam Note: '', ''Explain the concept of '']"

definition hasIntentPrefix :: "string \<Rightarrow> bool" where
  "hasIntentPrefix d = list_ex (startsWith d) intentPrefixes"

section \<open>Data model (types.ts)\<close>

datatype role = User | Model

record attachment =
  data :: string
  mimeType :: string
  name :: string

text \<open>
  A message is polymorphic in its timestamp: a \<open>Date\<close> in the running client, a string
  in a parsed snapshot. The fields \<open>id\<close>, \<open>text\<close> and \<open>image\<close> of the source are
  \<open>msgId\<close>, \<open>msgText\<close> and \<open>msgImage\<close> here; an optional field is an \<open>option\<close>.
\<close>

record 't message =
  msgId :: string
  role :: role
  msgText :: string
  timestamp :: 't
  msgImage :: "string option"
  attachment :: "attachment option"

record 't chatState =
  messages :: "'t message list"
  isLoading :: bool
  selectedSubject :: "string option"

section \<open>InputArea: resolving the media type of a picked file\<close>

text \<open>
  \<open>file.name.split('.').pop()?.toLowerCase()\<close>; the array that \<open>split\<close> returns is
  never empty, so \<open>pop\<close> returns its last element.
\<close>

definition fileExt :: "(string \<Rightarrow> string) \<Rightarrow> string \<Rightarrow> string" where
  "fileExt lower fileName = lower (last (split fileName CHR ''.''))"

text \<open>
  \<open>handleFileSelect\<close>, from the declared \<open>file.type\<close>, the \<open>file.name\<close> and the data
  URL the reader produced, to the attachment that is stored.
\<close>

definition resolveMimeType :: "(string \<Rightarrow> string) \<Rightarrow> string \<Rightarrow> string \<Rightarrow> string" where
  "resolveMimeType lower fileType fileName =
     (let ext = fileExt lower fileName;
          mimeType' =
            (if fileType = [] \<or> fileType = ''application/octet-stream'' then
               (if ext = ''csv'' then ''text/csv''
                else if ext = ''md'' then ''text/markdown''
                else if ext = ''json'' then ''application/json''
                else if ext = ''pdf'' then ''application/pdf''
                else if ext = ''txt'' then ''text/plain''
                else if ext = ''tsv'' then ''text/tab-separated-values''
                else if ext = ''xml'' then ''text/xml''
                else if ext = ''yml'' \<or> ext = ''yaml'' then ''text/yaml''
                else fileType)
             else fileType)
      in if mimeType' = [] then ''application/octet-stream'' else mimeType')"

definition handleFileSelect ::
  "(string \<Rightarrow> string) \<Rightarrow> string \<Rightarrow> string \<Rightarrow> string \<Rightarrow> attachment" where
  "handleFileSelect lower fileType fileName readerResult =
     \<lparr>data = readerResult, mimeType = resolveMimeType lower fileType fileName,
      name = fileName\<rparr>"

text \<open>The extension table as the specification lists it.\<close>

definition specExtensionTable :: "(string \<times> string) list" where
  "specExtensionTable =
     [(''csv'', ''text/csv''), (''md'', ''text/markdown''), (''json'', ''application/json''),
      (''pdf'', ''application/pdf''), (''txt'', ''text/plain''),
      (''tsv'', ''text/tab-separated-values''), (''xml'', ''text/xml''),
      (''yml'', ''text/yaml''), (''yaml'', ''text/yaml'')]"

section \<open>geminiService: classification and decoding\<close>

definition isTextBased :: "string \<Rightarrow> bool" where
  "isTextBased mt =
     (startsWith mt ''text/'' \<or> mt = ''application/json'' \<or> mt = ''application/xml'' \<or>
      mt = ''application/x-yaml'' \<or> includes_str mt ''csv'' \<or> includes_str mt ''script'')"

text \<open>
  Exceptions are values: a computation that may throw returns \<open>error + 'a\<close>, with
  \<open>Inl\<close> for the exception.
\<close>

datatype error = InvalidCharacterError | SyntaxError | TypeError | RequestFailed

definition andThen :: "error + 'a \<Rightarrow> ('a \<Rightarrow> error + 'b) \<Rightarrow> error + 'b" where
  "andThen r f = (case r of Inl e \<Rightarrow> Inl e | Inr v \<Rightarrow> f v)"

definition tryCatch :: "error + 'a \<Rightarrow> (error \<Rightarrow> error + 'a) \<Rightarrow> error + 'a" where
  "tryCatch body handler = (case body of Inl e \<Rightarrow> handler e | Inr v \<Rightarrow> Inr v)"

text \<open>
  \<open>atob\<close> is the platform's forgiving base64 decoder: ASCII white space is dropped, one
  or two trailing \<open>=\<close> are dropped when the length is a multiple of four, a length of
  1 modulo 4 or a character outside the alphabet throws, and the sextets are packed into
  bytes with the left-over bits discarded. The result is a binary string, one code unit
  below 256 per byte.
\<close>

definition base64Alphabet :: string where
  "base64Alphabet = ''ABCDEFGHIJKLMNOPQRSTUVWXYZabcdefghijklmnopqrstuvwxyz0123456789+/''"

fun indexOf :: "string \<Rightarrow> char \<Rightarrow> nat" where
  "indexOf [] c = 0"
| "indexOf (x # xs) c = (if x = c then 0 else Suc (indexOf xs c))"

fun packSextets :: "nat list \<Rightarrow> nat list" where
  "packSextets (a # b # c # d # rest) =
     (a * 4 + b div 16) # ((b mod 16) * 16 + c div 4) # ((c mod 4) * 64 + d) # packSextets rest"
| "packSextets [a, b, c] = [a * 4 + b div 16, (b mod 16) * 16 + c div 4]"
| "packSextets [a, b] = [a * 4 + b div 16]"
| "packSextets _ = []"

definition isAsciiWhitespace :: "char \<Rightarrow> bool" where
  "isAsciiWhitespace c = (c \<in> set [CHR 0x09, CHR 0x0A, CHR 0x0C, CHR 0x0D, CHR 0x20])"

definition dropPadding :: "string \<Rightarrow> string" where
  "dropPadding s =
     (if length s mod 4 = 0 then
        (case rev s of
           a # b # r \<Rightarrow> if a = CHR ''='' \<and> b = CHR ''='' then rev r
                        else if a = CHR ''='' then rev (b # r) else s
         | _ \<Rightarrow> s)
      else s)"

definition atob :: "string \<Rightarrow> error + string" where
  "atob s =
     (let d = dropPadding (filter (\<lambda>c. \<not> isAsciiWhitespace c) s)
      in if length d mod 4 = 1 then Inl InvalidCharacterError
         else if list_ex (\<lambda>c. c \<notin> set base64Alphabet) d then Inl InvalidCharacterError
         else Inr (map char_of (packSextets (map (indexOf base64Alphabet) d))))"

text \<open>
  \<open>decodeBase64Text\<close>. The bytes handed to \<open>TextDecoder\<close> are the code units of the
  binary string. \<open>new TextDecoder().decode\<close> is the platform's UTF-8 decoder, taken as
  the parameter \<open>td\<close>; whatever it or \<open>atob\<close> throws is caught and the empty string
  returned.
\<close>

definition decodeBase64Text :: "(nat list \<Rightarrow> error + string) \<Rightarrow> string \<Rightarrow> error + string" where
  "decodeBase64Text td base64 =
     tryCatch
       (andThen (atob base64) (\<lambda>binaryString. td (map of_char binaryString)))
       (\<lambda>e. Inr [])"

text \<open>\<open>x.split(',')[1] || x\<close>: the element at index 1 unless it is missing or empty.\<close>

definition base64Data :: "string \<Rightarrow> string" where
  "base64Data d =
     (case split d CHR '','' of
        _ # seg # _ \<Rightarrow> if seg = [] then d else seg
      | _ \<Rightarrow> d)"


section \<open>geminiService: requests and responses\<close>

text \<open>
  A \<open>Part\<close> of the backend's interface carries optional fields; the code builds parts
  with exactly one of \<open>text\<close> and \<open>inlineData\<close> and reads them by testing the fields
  in turn. The field \<open>text\<close> is \<open>partText\<close> here, and the fields of the inline data
  are \<open>blobMimeType\<close> and \<open>blobData\<close>.
\<close>

record blob =
  blobMimeType :: string
  blobData :: string

record part =
  inlineData :: "blob option"
  partText :: "string option"

definition textPart :: "string \<Rightarrow> part" where
  "textPart s = \<lparr>inlineData = None, partText = Some s\<rparr>"

definition inlinePart :: "string \<Rightarrow> string \<Rightarrow> part" where
  "inlinePart mt d = \<lparr>inlineData = Some \<lparr>blobMimeType = mt, blobData = d\<rparr>, partText = None\<rparr>"

record content =
  contentRole :: "role option"
  parts :: "part list"

text \<open>
  The generation config is one of two constants: the image config with its aspect
  ratio, or the chat config (\<open>SYSTEM_INSTRUCTION\<close> and temperature 0.3).
\<close>

datatype config = ImageConfig string | ChatConfig

record request =
  model :: string
  contents :: "content list"
  config :: config

text \<open>
  What the code reads of a backend response: \<open>response.candidates?.[0]?.content?.parts\<close>
  (absent when a link of the chain is) and \<open>response.text\<close>.
\<close>

record response =
  candidateParts :: "part list option"
  responseText :: "string option"

record geminiResponse =
  respText :: string
  generatedImage :: "string option"

subsection \<open>Image generation flow\<close>

datatype intent = ImageGeneration string | StandardChat

text \<open>
  The test at the head of \<open>sendMessageToGemini\<close> and the prompt it extracts:
  \<open>prompt.replace("Generate Image:", "").trim()\<close>.
\<close>

definition requestIntent :: "string \<Rightarrow> intent" where
  "requestIntent prompt =
     (if startsWith prompt ''Generate Image:''
      then ImageGeneration (trim (replace prompt ''Generate Image:'' []))
      else StandardChat)"

definition imageRequest :: "string \<Rightarrow> request" where
  "imageRequest imagePrompt =
     \<lparr>model = ''gemini-2.5-flash-image'',
      contents = [\<lparr>contentRole = None, parts = [textPart imagePrompt]\<rparr>],
      config = ImageConfig ''4:3''\<rparr>"

text \<open>One round of the loop over the response's parts, on \<open>(text, generatedImage)\<close>.\<close>

definition imageStep :: "string \<times> string option \<Rightarrow> part \<Rightarrow> string \<times> string option" where
  "imageStep acc p =
     (case inlineData p of
        Some b \<Rightarrow> (fst acc, Some (''data:'' @ blobMimeType b @ '';base64,'' @ blobData b))
      | None \<Rightarrow>
          (case partText p of
             Some t \<Rightarrow> if t \<noteq> [] then (fst acc @ t, snd acc) else acc
           | None \<Rightarrow> acc))"

definition imageResult :: "response \<Rightarrow> geminiResponse" where
  "imageResult resp =
     (let acc = (case candidateParts resp of
                   Some ps \<Rightarrow> foldl imageStep ([], None) ps
                 | None \<Rightarrow> ([], None))
      in \<lparr>respText = (if fst acc = [] then ''Here is the visual representation you requested.''
                      else fst acc),
          generatedImage = snd acc\<rparr>)"

definition imageFlow :: "(request \<Rightarrow> error + response) \<Rightarrow> string \<Rightarrow> error + geminiResponse" where
  "imageFlow backend imagePrompt =
     andThen (backend (imageRequest imagePrompt)) (\<lambda>resp. Inr (imageResult resp))"

subsection \<open>Standard chat flow\<close>

text \<open>The parts of one historical message.\<close>

definition historyParts :: "(nat list \<Rightarrow> error + string) \<Rightarrow> 't message \<Rightarrow> error + part list" where
  "historyParts td msg =
     andThen
       (case attachment msg of
          Some att \<Rightarrow>
            (let b = base64Data (data att)
             in if isTextBased (mimeType att) then
                  andThen (decodeBase64Text td b) (\<lambda>textContent.
                    Inr [textPart (''[Attached File: '' @ name att @ '']\<newline>'' @ textContent
                                   @ ''\<newline>[End of File]'')])
                else
                  Inr [textPart (''[Attached File: '' @ name att @ '']''),
                       inlinePart (mimeType att) b])
        | None \<Rightarrow>
            (case msgImage msg of
               Some img \<Rightarrow>
                 if img \<noteq> [] then Inr [inlinePart ''image/jpeg'' (base64Data img)] else Inr []
             | None \<Rightarrow> Inr []))
       (\<lambda>ps. Inr (ps @ [textPart (msgText msg)]))"

fun historyContents :: "(nat list \<Rightarrow> error + string) \<Rightarrow> 't message list \<Rightarrow> error + content list" where
  "historyContents td [] = Inr []"
| "historyContents td (msg # rest) =
     andThen (historyParts td msg) (\<lambda>ps.
       andThen (historyContents td rest) (\<lambda>cs.
         Inr (\<lparr>contentRole = Some (role msg), parts = ps\<rparr> # cs)))"

text \<open>The parts of the current message.\<close>

definition currentParts ::
  "(nat list \<Rightarrow> error + string) \<Rightarrow> string \<Rightarrow> attachment option \<Rightarrow> error + part list" where
  "currentParts td prompt attachment' =
     andThen
       (case attachment' of
          Some att \<Rightarrow>
            (let b = base64Data (data att)
             in if isTextBased (mimeType att) then
                  andThen (decodeBase64Text td b) (\<lambda>textContent.
                    Inr [textPart (''[Attached File: '' @ name att @ '']\<newline>'' @ textContent
                                   @ ''\<newline>[End of File]\<newline>\<newline>'')])
                else
                  Inr [textPart (''[Attached File: '' @ name att @ '']''),
                       inlinePart (mimeType att) b])
        | None \<Rightarrow> Inr [])
       (\<lambda>ps. Inr (ps @ [textPart prompt]))"

definition chatRequest :: "content list \<Rightarrow> request" where
  "chatRequest cs = \<lparr>model = ''gemini-2.5-flash'', contents = cs, config = ChatConfig\<rparr>"

definition chatResult :: "response \<Rightarrow> geminiResponse" where
  "chatResult resp =
     (case responseText resp of
        Some t \<Rightarrow>
          if t \<noteq> [] then \<lparr>respText = t, generatedImage = None\<rparr>
          else \<lparr>respText = ''I analyzed the input but couldn't generate a text response. Please try clarifying your question.'',
                generatedImage = None\<rparr>
      | None \<Rightarrow>
          \<lparr>respText = ''I analyzed the input but couldn't generate a text response. Please try clarifying your question.'',
           generatedImage = None\<rparr>)"

definition chatFlow ::
  "(nat list \<Rightarrow> error + string) \<Rightarrow> (request \<Rightarrow> error + response) \<Rightarrow> string \<Rightarrow> 't message list
     \<Rightarrow> attachment option \<Rightarrow> error + geminiResponse" where
  "chatFlow td backend prompt history attachment' =
     andThen (historyContents td history) (\<lambda>cs.
       andThen (currentParts td prompt attachment') (\<lambda>ps.
         andThen (backend (chatRequest (cs @ [\<lparr>contentRole = Some User, parts = ps\<rparr>])))
           (\<lambda>resp. Inr (chatResult resp))))"

subsection \<open>sendMessageToGemini\<close>

text \<open>
  The backend call \<open>ai.models.generateContent\<close> is the parameter \<open>backend\<close>; it may
  throw. The whole body sits in one \<open>try\<close> whose handler returns the canned error
  message.
\<close>

definition sendMessageToGemini ::
  "(nat list \<Rightarrow> error + string) \<Rightarrow> (request \<Rightarrow> error + response) \<Rightarrow> string \<Rightarrow> 't message list
     \<Rightarrow> attachment option \<Rightarrow> error + geminiResponse" where
  "sendMessageToGemini td backend prompt history attachment' =
     tryCatch
       (case requestIntent prompt of
          ImageGeneration imagePrompt \<Rightarrow> imageFlow backend imagePrompt
        | StandardChat \<Rightarrow> chatFlow td backend prompt history attachment')
       (\<lambda>e. Inr \<lparr>respText = ''I encountered an error while processing your request. Please try again.'',
                  generatedImage = None\<rparr>)"


section \<open>App: the session and its snapshot\<close>

definition STORAGE_KEY :: string where
  "STORAGE_KEY = ''acctsolver_chat_state''"

text \<open>
  The component's state, its search term, and the browser's \<open>localStorage\<close>, a map from
  keys to strings.
\<close>

record 't app =
  state :: "'t chatState"
  searchTerm :: string
  localStorage :: "string \<rightharpoonup> string"

definition emptyState :: "'t chatState" where
  "emptyState = \<lparr>messages = [], isLoading = False, selectedSubject = None\<rparr>"

text \<open>\<open>{...msg, timestamp: new Date(msg.timestamp)}\<close>, with \<open>new Date\<close> as the parameter.\<close>

definition restoreMessage :: "(string \<Rightarrow> 't) \<Rightarrow> string message \<Rightarrow> 't message" where
  "restoreMessage newDate msg =
     \<lparr>msgId = msgId msg, role = role msg, msgText = msgText msg,
      timestamp = newDate (timestamp msg), msgImage = msgImage msg,
      attachment = attachment msg\<rparr>"

text \<open>
  The initialiser of the state. \<open>JSON_parse\<close> stands for \<open>JSON.parse\<close> together with the
  shape the code relies on: it throws on text that is not JSON and on a value whose
  \<open>messages\<close> cannot be mapped over. The \<open>try\<close> returns from inside on success; every
  other path falls through to the empty state.
\<close>

definition initialState ::
  "(string \<Rightarrow> 't) \<Rightarrow> (string \<Rightarrow> error + string chatState) \<Rightarrow> (string \<rightharpoonup> string) \<Rightarrow> 't chatState" where
  "initialState newDate JSON_parse storage =
     (case tryCatch
             (case storage STORAGE_KEY of
                Some saved \<Rightarrow>
                  if saved \<noteq> [] then
                    andThen (JSON_parse saved) (\<lambda>parsed.
                      Inr (Some \<lparr>messages = map (restoreMessage newDate) (messages parsed),
                                 isLoading = False,
                                 selectedSubject = selectedSubject parsed\<rparr>))
                  else Inr None
              | None \<Rightarrow> Inr None)
             (\<lambda>e. Inr None)
      of Inr (Some restored) \<Rightarrow> restored
       | _ \<Rightarrow> emptyState)"

text \<open>One firing of the autosave interval; \<open>JSON.stringify\<close> is the parameter.\<close>

definition autosaveTick :: "('t chatState \<Rightarrow> string) \<Rightarrow> 't app \<Rightarrow> 't app" where
  "autosaveTick JSON_stringify a =
     (if length (messages (state a)) > 0
      then a\<lparr>localStorage := (localStorage a)(STORAGE_KEY \<mapsto> JSON_stringify (state a))\<rparr>
      else a)"

text \<open>\<open>resetChat\<close>; the Boolean is the answer to \<open>window.confirm\<close>.\<close>

definition resetChat :: "bool \<Rightarrow> 't app \<Rightarrow> 't app" where
  "resetChat confirmed a =
     (if confirmed
      then a\<lparr>state := emptyState, searchTerm := [],
             localStorage := (localStorage a)(STORAGE_KEY := None)\<rparr>
      else a)"

definition goHome :: "'t app \<Rightarrow> 't app" where
  "goHome a = a\<lparr>state := (state a)\<lparr>messages := [], selectedSubject := None\<rparr>, searchTerm := []\<rparr>"

definition handleSubjectSelect :: "string \<Rightarrow> 't app \<Rightarrow> 't app" where
  "handleSubjectSelect subjectName a = a\<lparr>state := (state a)\<lparr>selectedSubject := Some subjectName\<rparr>\<rparr>"

text \<open>The messages shown, filtered by the search term.\<close>

definition displayedMessages ::
  "(string \<Rightarrow> string) \<Rightarrow> string \<Rightarrow> 't message list \<Rightarrow> 't message list" where
  "displayedMessages lower searchTerm' msgs =
     (if trim searchTerm' \<noteq> []
      then filter (\<lambda>msg. includes_str (lower (msgText msg)) (lower searchTerm')) msgs
      else msgs)"

text \<open>
  \<open>handleSendMessage\<close>. The subject, when one is selected, is put in front of the text
  before the service is called.
\<close>

definition promptContext :: "string option \<Rightarrow> string \<Rightarrow> string" where
  "promptContext subject txt =
     (case subject of
        Some s \<Rightarrow> if s \<noteq> [] then ''[Subject: '' @ s @ ''] '' @ txt else txt
      | None \<Rightarrow> txt)"

text \<open>
  The identifiers and the clock readings are inputs (\<open>uuidv4()\<close>, \<open>new Date()\<close>). The
  result is the state once the response has been appended.
\<close>

definition handleSendMessage ::
  "(nat list \<Rightarrow> error + string) \<Rightarrow> (request \<Rightarrow> error + response) \<Rightarrow> string \<Rightarrow> 't \<Rightarrow> string \<Rightarrow> 't
     \<Rightarrow> string \<Rightarrow> attachment option \<Rightarrow> 't app \<Rightarrow> 't app" where
  "handleSendMessage td backend uuid1 now1 uuid2 now2 txt attachment' a =
     (let a0 = (if searchTerm a \<noteq> [] then a\<lparr>searchTerm := []\<rparr> else a);
          userMsg = \<lparr>msgId = uuid1, role = User, msgText = txt, timestamp = now1,
                     msgImage = None, attachment = attachment'\<rparr>;
          currentHistory = messages (state a);
          a1 = a0\<lparr>state := (state a0)\<lparr>messages := messages (state a0) @ [userMsg],
                                       isLoading := True\<rparr>\<rparr>
      in case sendMessageToGemini td backend (promptContext (selectedSubject (state a)) txt)
                currentHistory attachment' of
           Inr r \<Rightarrow>
             a1\<lparr>state := (state a1)\<lparr>messages := messages (state a1) @
                    [\<lparr>msgId = uuid2, role = Model, msgText = respText r, timestamp = now2,
                      msgImage = generatedImage r, attachment = None\<rparr>],
                  isLoading := False\<rparr>\<rparr>
         | Inl e \<Rightarrow> a1)"

section \<open>Notions of the specification\<close>

text \<open>
  On strings of code units below 256 the case of a letter is a matter of the single code
  unit. There a text contains a term as a case-insensitive substring when, at some
  position, the text reads the term up to the case of letters.
\<close>

definition ciContains :: "string \<Rightarrow> string \<Rightarrow> bool" where
  "ciContains txt t =
     list_ex (\<lambda>i. toLowerCase (take (length t) (drop i txt)) = toLowerCase t)
       [0 ..< Suc (length txt)]"

text \<open>
  What \<open>JSON.stringify\<close> writes of a state: every field as it is, each timestamp through
  \<open>Date.prototype.toJSON\<close>, which is the parameter.
\<close>

definition storedMessage :: "('t \<Rightarrow> string) \<Rightarrow> 't message \<Rightarrow> string message" where
  "storedMessage toJSON msg =
     \<lparr>msgId = msgId msg, role = role msg, msgText = msgText msg,
      timestamp = toJSON (timestamp msg), msgImage = msgImage msg,
      attachment = attachment msg\<rparr>"

definition storedState :: "('t \<Rightarrow> string) \<Rightarrow> 't chatState \<Rightarrow> string chatState" where
  "storedState toJSON st =
     \<lparr>messages = map (storedMessage toJSON) (messages st), isLoading = isLoading st,
      selectedSubject = selectedSubject st\<rparr>"

text \<open>
  The text parts of a response, concatenated in part order, and its inline images in
  part order, each as the data URL the result carries. A part that has inline data
  counts as an image part.
\<close>

definition textOfParts :: "part list \<Rightarrow> string" where
  "textOfParts ps =
     concat (map (\<lambda>p. case partText p of Some t \<Rightarrow> t | None \<Rightarrow> [])
               (filter (\<lambda>p. inlineData p = None) ps))"

definition inlineImages :: "part list \<Rightarrow> string list" where
  "inlineImages ps =
     map (\<lambda>b. ''data:'' @ blobMimeType b @ '';base64,'' @ blobData b)
       (List.map_filter inlineData ps)"

text \<open>
  \<open>TextDecoder\<close> on ASCII input: each byte below 128 decodes to the code unit of the
  same value. On other bytes the platform's decoder reads UTF-8 and puts U+FFFD for
  malformed input, both beyond the 8-bit strings of this model; the function below
  throws there instead, so beyond ASCII it is a decoder that fails, not the platform's.
  It serves to run examples: the theorems hold for every decoder.
\<close>

definition decodeAscii :: "nat list \<Rightarrow> error + string" where
  "decodeAscii bytes =
     (if list_all (\<lambda>b. b < 128) bytes then Inr (map char_of bytes) else Inl TypeError)"

section \<open>Properties of the string built-ins\<close>

lemma lowerChar_code_unit:
  "(of_char (lowerChar c) :: nat) =
     (let n = of_char c
      in if (65 \<le> n \<and> n \<le> 90) \<or> (192 \<le> n \<and> n \<le> 222 \<and> n \<noteq> 215) then n + 32 else n)"
proof (cases c)
  case (Char b0 b1 b2 b3 b4 b5 b6 b7)
  show ?thesis unfolding Char lowerChar_def Let_def
    by (cases b0; cases b1; cases b2; cases b3; cases b4; cases b5; cases b6; cases b7; simp)
qed

section \<open>The intent prefix buttons\<close>

lemma removePrefix_length: "length (removePrefix d q) \<le> length d"
  by (simp add: removePrefix_def substring_def)

lemma removePrefix_id: "\<not> prefix q d \<Longrightarrow> removePrefix d q = d"
  by (simp add: removePrefix_def startsWith_def)

lemma removePrefix_shorter: "prefix q d \<Longrightarrow> q \<noteq> [] \<Longrightarrow> length (removePrefix d q) < length d"
  by (cases d) (auto simp: removePrefix_def startsWith_def substring_def)

lemma incomparable_append: "\<not> prefix p q \<Longrightarrow> \<not> prefix q p \<Longrightarrow> \<not> prefix q (p @ x)"
  by (auto simp: prefix_append)

text \<open>
  Pressing a button twice, for a prefix \<open>p\<close> and two conflicting prefixes none of which
  is a prefix of \<open>p\<close> or has \<open>p\<close> as a prefix. The draft comes back exactly when it
  starts with none of the three, or starts with \<open>p\<close> and what follows starts with none.
\<close>

lemma togglePrefix_twice:
  assumes pq1: "\<not> prefix p q1" "\<not> prefix q1 p" and pq2: "\<not> prefix p q2" "\<not> prefix q2 p"
  shows "togglePrefix p [q1, q2] (togglePrefix p [q1, q2] d) = d \<longleftrightarrow>
         (\<not> (prefix p d \<or> prefix q1 d \<or> prefix q2 d) \<or>
          (prefix p d \<and> \<not> (prefix p (drop (length p) d) \<or> prefix q1 (drop (length p) d)
              \<or> prefix q2 (drop (length p) d))))"
proof -
  define strip where "strip x = removePrefix (removePrefix x q1) q2" for x
  define T where "T x = togglePrefix p [q1, q2] x" for x
  have ne: "p \<noteq> []" "q1 \<noteq> []" "q2 \<noteq> []" using pq1 pq2 by auto
  have T_eq: "T x = (if prefix p (strip x) then drop (length p) (strip x) else p @ strip x)" for x
    by (simp add: T_def strip_def togglePrefix_def startsWith_def substring_def)
  have strip_le: "length (strip x) \<le> length x" for x
    unfolding strip_def
    using removePrefix_length[of "removePrefix x q1" q2] removePrefix_length[of x q1]
    by linarith
  have strip_id: "strip x = x" if "\<not> prefix q1 x" "\<not> prefix q2 x" for x
    using that by (simp add: strip_def removePrefix_id)
  have strip_lt: "length (strip x) < length x" if "prefix q1 x \<or> prefix q2 x" for x
  proof (cases "prefix q1 x")
    case True
    then have "length (removePrefix x q1) < length x" using ne by (simp add: removePrefix_shorter)
    then show ?thesis unfolding strip_def
      using removePrefix_length[of "removePrefix x q1" q2] by linarith
  next
    case False
    then have "removePrefix x q1 = x" by (simp add: removePrefix_id)
    moreover have "prefix q2 x" using False that by simp
    ultimately show ?thesis unfolding strip_def using ne by (simp add: removePrefix_shorter)
  qed
  have p_excl: "\<not> prefix q1 x \<and> \<not> prefix q2 x" if "prefix p x" for x
  proof -
    from that obtain y where "x = p @ y" by (auto simp: prefix_def)
    then show ?thesis using pq1 pq2 by (simp add: incomparable_append)
  qed
  have T_le: "length (T x) \<le> length p + length (strip x)" for x
    by (simp add: T_eq) arith
  let ?n = "strip d"
  let ?r = "drop (length p) d"
  show ?thesis unfolding T_def[symmetric]
  proof (cases "prefix p ?n")
    case False
    have "strip (p @ ?n) = p @ ?n" using p_excl[of "p @ ?n"] by (simp add: strip_id)
    then have TT: "T (T d) = ?n" using False by (simp add: T_eq)
    show "T (T d) = d \<longleftrightarrow>
         (\<not> (prefix p d \<or> prefix q1 d \<or> prefix q2 d) \<or>
          (prefix p d \<and> \<not> (prefix p ?r \<or> prefix q1 ?r \<or> prefix q2 ?r)))"
    proof (cases "prefix q1 d \<or> prefix q2 d")
      case True
      then have "?n \<noteq> d" using strip_lt[of d] by auto
      moreover have "\<not> prefix p d" using True p_excl[of d] by auto
      ultimately show ?thesis using TT True by auto
    next
      case F2: False
      then have "?n = d" by (simp add: strip_id)
      then show ?thesis using TT False F2 by auto
    qed
  next
    case True
    then have Td: "T d = drop (length p) ?n" by (simp add: T_eq)
    show "T (T d) = d \<longleftrightarrow>
         (\<not> (prefix p d \<or> prefix q1 d \<or> prefix q2 d) \<or>
          (prefix p d \<and> \<not> (prefix p ?r \<or> prefix q1 ?r \<or> prefix q2 ?r)))"
    proof (cases "prefix q1 d \<or> prefix q2 d")
      case Q: True
      then have np: "\<not> prefix p d" using p_excl[of d] by auto
      have "length (T (T d)) \<le> length p + length (strip (T d))" by (rule T_le)
      also have "\<dots> \<le> length p + length (T d)" using strip_le[of "T d"] by simp
      also have "\<dots> = length ?n" using True Td by (auto simp: prefix_def)
      also have "\<dots> < length d" using Q by (rule strip_lt)
      finally have "T (T d) \<noteq> d" by auto
      then show ?thesis using Q np by auto
    next
      case NQ: False
      then have nd: "?n = d" by (simp add: strip_id)
      then have pd: "prefix p d" using True by simp
      then have d_eq: "d = p @ ?r" by (auto simp: prefix_def)
      have Tr: "T d = ?r" using Td nd by simp
      show ?thesis
      proof (cases "prefix p ?r \<or> prefix q1 ?r \<or> prefix q2 ?r")
        case R: False
        then have "strip ?r = ?r" by (simp add: strip_id)
        then have "T ?r = p @ ?r" using R by (simp add: T_eq)
        then show ?thesis using Tr d_eq R pd by auto
      next
        case R: True
        have lp: "length p \<le> length d" using pd by (simp add: prefix_length_le)
        have "length (T ?r) < length d"
        proof (cases "prefix p ?r")
          case P: True
          then have "strip ?r = ?r" using p_excl[of ?r] by (simp add: strip_id)
          then have "T ?r = drop (length p) ?r" using P by (simp add: T_eq)
          then show ?thesis using lp ne by (cases p) auto
        next
          case P: False
          then have "length (strip ?r) < length ?r" using R strip_lt[of ?r] by blast
          then show ?thesis using T_le[of ?r] lp by simp
        qed
        then have "T (T d) \<noteq> d" using Tr by auto
        then show ?thesis using R pd by auto
      qed
    qed
  qed
qed

lemma hasIntentPrefix_iff:
  "hasIntentPrefix d \<longleftrightarrow>
     prefix ''Generate Image: '' d \<or> prefix ''Exam Note: '' d \<or>
     prefix ''Explain the concept of '' d"
  by (simp add: hasIntentPrefix_def intentPrefixes_def startsWith_def)

lemma handleChartClick_twice:
  "handleChartClick (handleChartClick d) = d \<longleftrightarrow>
     (\<not> hasIntentPrefix d \<or>
      (startsWith d ''Generate Image: '' \<and>
       \<not> hasIntentPrefix (substring d (length ''Generate Image: ''))))"
proof -
  have "togglePrefix ''Generate Image: '' [''Explain the concept of '', ''Exam Note: '']
          (togglePrefix ''Generate Image: '' [''Explain the concept of '', ''Exam Note: ''] d) = d \<longleftrightarrow>
        (\<not> (prefix ''Generate Image: '' d \<or> prefix ''Explain the concept of '' d \<or> prefix ''Exam Note: '' d) \<or>
         (prefix ''Generate Image: '' d \<and>
          \<not> (prefix ''Generate Image: '' (drop (length ''Generate Image: '') d) \<or>
             prefix ''Explain the concept of '' (drop (length ''Generate Image: '') d) \<or>
             prefix ''Exam Note: '' (drop (length ''Generate Image: '') d))))"
    by (rule togglePrefix_twice) simp_all
  then show ?thesis
    unfolding handleChartClick_def hasIntentPrefix_iff startsWith_def substring_def
    by blast
qed

lemma handleExamModeClick_twice:
  "handleExamModeClick (handleExamModeClick d) = d \<longleftrightarrow>
     (\<not> hasIntentPrefix d \<or>
      (startsWith d ''Exam Note: '' \<and>
       \<not> hasIntentPrefix (substring d (length ''Exam Note: ''))))"
proof -
  have "togglePrefix ''Exam Note: '' [''Explain the concept of '', ''Generate Image: '']
          (togglePrefix ''Exam Note: '' [''Explain the concept of '', ''Generate Image: ''] d) = d \<longleftrightarrow>
        (\<not> (prefix ''Exam Note: '' d \<or> prefix ''Explain the concept of '' d \<or> prefix ''Generate Image: '' d) \<or>
         (prefix ''Exam Note: '' d \<and>
          \<not> (prefix ''Exam Note: '' (drop (length ''Exam Note: '') d) \<or>
             prefix ''Explain the concept of '' (drop (length ''Exam Note: '') d) \<or>
             prefix ''Generate Image: '' (drop (length ''Exam Note: '') d))))"
    by (rule togglePrefix_twice) simp_all
  then show ?thesis
    unfolding handleExamModeClick_def hasIntentPrefix_iff startsWith_def substring_def
    by blast
qed

lemma handleExplainClick_twice:
  "handleExplainClick (handleExplainClick d) = d \<longleftrightarrow>
     (\<not> hasIntentPrefix d \<or>
      (startsWith d ''Explain the concept of '' \<and>
       \<not> hasIntentPrefix (substring d (length ''Explain the concept of ''))))"
proof -
  have "togglePrefix ''Explain the concept of '' [''Exam Note: '', ''Generate Image: '']
          (togglePrefix ''Explain the concept of '' [''Exam Note: '', ''Generate Image: ''] d) = d \<longleftrightarrow>
        (\<not> (prefix ''Explain the concept of '' d \<or> prefix ''Exam Note: '' d \<or> prefix ''Generate Image: '' d) \<or>
         (prefix ''Explain the concept of '' d \<and>
          \<not> (prefix ''Explain the concept of '' (drop (length ''Explain the concept of '') d) \<or>
             prefix ''Exam Note: '' (drop (length ''Explain the concept of '') d) \<or>
             prefix ''Generate Image: '' (drop (length ''Explain the concept of '') d))))"
    by (rule togglePrefix_twice) simp_all
  then show ?thesis
    unfolding handleExplainClick_def hasIntentPrefix_iff startsWith_def substring_def
    by blast
qed

text \<open>
  C6, as the code has it. Pressing the same intent button twice gives the draft back if
  and only if the draft starts with none of the three intent prefixes, or starts with
  the button's own prefix and the rest starts with none of the three. This holds for
  each of the three buttons.
\<close>

theorem toggle_twice_round_trip:
  "(handleChartClick (handleChartClick d) = d \<longleftrightarrow>
      (\<not> hasIntentPrefix d \<or>
       (startsWith d ''Generate Image: '' \<and>
        \<not> hasIntentPrefix (substring d (length ''Generate Image: ''))))) \<and>
   (handleExamModeClick (handleExamModeClick d) = d \<longleftrightarrow>
      (\<not> hasIntentPrefix d \<or>
       (startsWith d ''Exam Note: '' \<and>
        \<not> hasIntentPrefix (substring d (length ''Exam Note: ''))))) \<and>
   (handleExplainClick (handleExplainClick d) = d \<longleftrightarrow>
      (\<not> hasIntentPrefix d \<or>
       (startsWith d ''Explain the concept of '' \<and>
        \<not> hasIntentPrefix (substring d (length ''Explain the concept of '')))))"
  using handleChartClick_twice handleExamModeClick_twice handleExplainClick_twice
  by (intro conjI)

text \<open>
  The round trip at two drafts: a plain one, and one that carries the exam prefix.
\<close>

theorem toggle_twice_round_trip_witness:
  "handleExamModeClick (handleExamModeClick ''Define goodwill'') = ''Define goodwill'' \<and>
   handleExamModeClick (handleExamModeClick ''Exam Note: goodwill'') = ''Exam Note: goodwill''"
  using toggle_twice_round_trip [of "''Define goodwill''"]
    toggle_twice_round_trip [of "''Exam Note: goodwill''"]
  by (simp add: hasIntentPrefix_iff startsWith_def substring_def)

text \<open>
  The round trip as C6 states it, for every draft, fails: a draft that carries the image
  prefix loses it when the exam button is pressed twice.
\<close>

theorem toggle_twice_counterexample:
  "handleExamModeClick (handleExamModeClick ''Generate Image: foo'') \<noteq> ''Generate Image: foo''"
  by (simp add: handleExamModeClick_def togglePrefix_def removePrefix_def startsWith_def
      substring_def)

section \<open>Stripping the data URL prefix\<close>

lemma split_no_sep: "sep \<notin> set s \<Longrightarrow> split s sep = [s]"
  by (induction s) auto

lemma split_append_sep: "sep \<notin> set p \<Longrightarrow> split (p @ sep # q) sep = p # split q sep"
  by (induction p) auto

lemma base64Data_no_comma: "CHR '','' \<notin> set s \<Longrightarrow> base64Data s = s"
  by (simp add: base64Data_def split_no_sep)

lemma base64Data_one_comma:
  "CHR '','' \<notin> set p \<Longrightarrow> CHR '','' \<notin> set q \<Longrightarrow>
   base64Data (p @ CHR '','' # q) = (if q = [] then p @ CHR '','' # q else q)"
  by (simp add: base64Data_def split_append_sep split_no_sep)

text \<open>
  C5 at the data URL of an empty file. The payload after the comma is empty, and the
  code passes the whole data URL on, prefix included, where C5 asks for the empty string.
\<close>

theorem base64Data_empty_payload:
  "base64Data ''data:text/plain;base64,'' = ''data:text/plain;base64,''"
  by (simp add: base64Data_def)

section \<open>Resolving the media type\<close>

lemma split_nonempty: "split s sep \<noteq> []"
  by (induction s) (auto split: list.splits)

lemma length_split: "length (split s sep) = Suc (length (filter (\<lambda>c. c = sep) s))"
  by (induction s) (auto simp add: split_nonempty split: list.splits)

text \<open>The last piece of a name is what follows its last dot.\<close>

lemma last_split_append: "last (split (p @ sep # q) sep) = last (split q sep)"
proof (induction p)
  case Nil
  then show ?case by (simp add: split_nonempty)
next
  case (Cons c p)
  show ?case
  proof (cases "c = sep")
    case True
    then show ?thesis using Cons.IH by (simp add: split_nonempty)
  next
    case False
    have "2 \<le> length (split (p @ sep # q) sep)" by (simp add: length_split)
    then obtain x y ys where "split (p @ sep # q) sep = x # y # ys"
      by (cases "split (p @ sep # q) sep" rule: list.exhaust; cases "tl (split (p @ sep # q) sep)") auto
    then show ?thesis using False Cons.IH by simp
  qed
qed

lemma fileExt_dotted:
  "CHR ''.'' \<notin> set e \<Longrightarrow> fileExt lower (base @ CHR ''.'' # e) = lower e"
  by (simp add: fileExt_def last_split_append split_no_sep)

text \<open>Every name that has a dot is of that form.\<close>

lemma dotted_name_decomposition:
  "CHR ''.'' \<in> set fileName \<Longrightarrow>
   \<exists>base e. fileName = base @ CHR ''.'' # e \<and> CHR ''.'' \<notin> set e"
  by (rule split_list_last)

text \<open>A name without a dot is taken for its own extension.\<close>

lemma fileExt_dotless: "CHR ''.'' \<notin> set fileName \<Longrightarrow> fileExt lower fileName = lower fileName"
  by (simp add: fileExt_def split_no_sep)

text \<open>
  C3, as the code has it. Let the declared type of the file be empty or
  \<open>application/octet-stream\<close>, and let the file name have a dot, with \<open>e\<close> the text after
  its last dot. Then the extension the code computes is \<open>e\<close> in lower case, the stored
  media type is the table's entry for it, and \<open>application/octet-stream\<close> when the table
  has no entry; in that case the attachment is not text-based, that is, Binary.
\<close>

theorem resolved_media_type:
  assumes "fileType = [] \<or> fileType = ''application/octet-stream''"
    and "CHR ''.'' \<notin> set e"
  shows "fileExt lower (base @ CHR ''.'' # e) = lower e \<and>
         mimeType (handleFileSelect lower fileType (base @ CHR ''.'' # e) readerResult) =
           (case map_of specExtensionTable (lower e) of
              Some mt \<Rightarrow> mt | None \<Rightarrow> ''application/octet-stream'') \<and>
         (map_of specExtensionTable (lower e) = None \<longrightarrow>
            \<not> isTextBased
                (mimeType (handleFileSelect lower fileType (base @ CHR ''.'' # e) readerResult)))"
proof -
  have ext: "fileExt lower (base @ CHR ''.'' # e) = lower e"
    using assms(2) by (rule fileExt_dotted)
  show ?thesis
    using assms(1)
    by (auto simp add: ext handleFileSelect_def resolveMimeType_def specExtensionTable_def
        Let_def isTextBased_def startsWith_def)
qed

text \<open>
  A spreadsheet export with no declared type, a file of an unknown kind, and a name with
  two dots.
\<close>

theorem resolved_media_type_witness:
  "fileExt toLowerCase ''Ledger.CSV'' = ''csv'' \<and>
   mimeType (handleFileSelect toLowerCase [] ''Ledger.CSV'' ''data:;base64,YSxiCjEsMg=='')
     = ''text/csv'' \<and>
   mimeType (handleFileSelect toLowerCase ''application/octet-stream'' ''book.bin''
              ''data:;base64,AA=='')
     = ''application/octet-stream'' \<and>
   \<not> isTextBased
       (mimeType (handleFileSelect toLowerCase ''application/octet-stream'' ''book.bin''
                   ''data:;base64,AA=='')) \<and>
   mimeType (handleFileSelect toLowerCase [] ''notes.csv.md'' ''data:;base64,'')
     = ''text/markdown''"
proof -
  have l1: "toLowerCase ''CSV'' = ''csv''" by (simp add: toLowerCase_def lowerChar_def)
  have l2: "toLowerCase ''bin'' = ''bin''" by (simp add: toLowerCase_def lowerChar_def)
  have l3: "toLowerCase ''md'' = ''md''" by (simp add: toLowerCase_def lowerChar_def)
  have a: "fileExt toLowerCase ''Ledger.CSV'' = ''csv'' \<and>
      mimeType (handleFileSelect toLowerCase [] ''Ledger.CSV'' ''data:;base64,YSxiCjEsMg=='')
        = ''text/csv''"
    using resolved_media_type [of "[]" "''CSV''" toLowerCase "''Ledger''"
        "''data:;base64,YSxiCjEsMg==''"]
    by (simp add: l1 specExtensionTable_def)
  have b: "mimeType (handleFileSelect toLowerCase ''application/octet-stream'' ''book.bin''
              ''data:;base64,AA=='') = ''application/octet-stream'' \<and>
      \<not> isTextBased
       (mimeType (handleFileSelect toLowerCase ''application/octet-stream'' ''book.bin''
                   ''data:;base64,AA==''))"
    using resolved_media_type [of "''application/octet-stream''" "''bin''" toLowerCase "''book''"
        "''data:;base64,AA==''"]
    by (auto simp add: l2 specExtensionTable_def)
  have c: "mimeType (handleFileSelect toLowerCase [] ''notes.csv.md'' ''data:;base64,'')
     = ''text/markdown''"
    using resolved_media_type [of "[]" "''md''" toLowerCase "''notes.csv''" "''data:;base64,''"]
    by (simp add: l3 specExtensionTable_def)
  show ?thesis using a b c by blast
qed

text \<open>
  C3 as stated fails twice. The extension \<open>CSV\<close> is not in the table, which lists
  \<open>csv\<close>, yet the file is stored as \<open>text/csv\<close> and is text-based: the code compares
  in lower case. And the name \<open>csv\<close> has no dot, so no extension at all, yet it is
  stored as \<open>text/csv\<close> too.
\<close>

theorem resolved_media_type_counterexample:
  "map_of specExtensionTable ''CSV'' = None \<and>
   mimeType (handleFileSelect toLowerCase [] ''Ledger.CSV'' ''data:;base64,'') = ''text/csv'' \<and>
   isTextBased (mimeType (handleFileSelect toLowerCase [] ''Ledger.CSV'' ''data:;base64,'')) \<and>
   CHR ''.'' \<notin> set ''csv'' \<and>
   mimeType (handleFileSelect toLowerCase [] ''csv'' ''data:;base64,'') = ''text/csv'' \<and>
   isTextBased (mimeType (handleFileSelect toLowerCase [] ''csv'' ''data:;base64,''))"
  by (simp add: specExtensionTable_def handleFileSelect_def resolveMimeType_def fileExt_def
      toLowerCase_def lowerChar_def isTextBased_def startsWith_def)

section \<open>The result of image generation\<close>

lemma textOfParts_simps:
  "textOfParts [] = []"
  "textOfParts (p # ps) =
     (case inlineData p of
        Some b \<Rightarrow> textOfParts ps
      | None \<Rightarrow> (case partText p of Some t \<Rightarrow> t | None \<Rightarrow> []) @ textOfParts ps)"
  by (simp_all add: textOfParts_def split: option.splits)

lemma inlineImages_simps:
  "inlineImages [] = []"
  "inlineImages (p # ps) =
     (case inlineData p of
        Some b \<Rightarrow> (''data:'' @ blobMimeType b @ '';base64,'' @ blobData b) # inlineImages ps
      | None \<Rightarrow> inlineImages ps)"
  by (simp_all add: inlineImages_def split: option.splits)

lemma imageStep_cases:
  "imageStep (t, g) p =
     (case inlineData p of
        Some b \<Rightarrow> (t, Some (''data:'' @ blobMimeType b @ '';base64,'' @ blobData b))
      | None \<Rightarrow> (t @ (case partText p of Some x \<Rightarrow> x | None \<Rightarrow> []), g))"
  by (simp add: imageStep_def split: option.splits)

text \<open>The loop over the parts, from any starting text and image.\<close>

lemma foldl_imageStep:
  "foldl imageStep (t, g) ps =
     (t @ textOfParts ps, if inlineImages ps = [] then g else Some (last (inlineImages ps)))"
proof (induction ps arbitrary: t g)
  case Nil
  then show ?case by (simp add: textOfParts_simps inlineImages_simps)
next
  case (Cons p ps)
  show ?case
    by (cases "inlineData p")
      (simp_all add: imageStep_cases Cons.IH textOfParts_simps inlineImages_simps)
qed

text \<open>
  C2, as the code has it. For a response with parts, the text of the result is the
  concatenation of the text parts in order, or the canned message when that is empty;
  the image of the result is the last inline image in part order, and absent when there
  is none. A response without parts gives the canned message and no image.
\<close>

theorem image_result_parts:
  "(candidateParts resp = Some ps \<longrightarrow>
      respText (imageResult resp) =
        (if textOfParts ps = [] then ''Here is the visual representation you requested.''
         else textOfParts ps) \<and>
      generatedImage (imageResult resp) =
        (if inlineImages ps = [] then None else Some (last (inlineImages ps)))) \<and>
   (candidateParts resp = None \<longrightarrow>
      respText (imageResult resp) = ''Here is the visual representation you requested.'' \<and>
      generatedImage (imageResult resp) = None)"
  by (simp add: imageResult_def foldl_imageStep Let_def)

text \<open>
  Text around one image; one image and no text; no parts at all.
\<close>

theorem image_result_parts_witness:
  "respText (imageResult \<lparr>candidateParts =
       Some [textPart ''Pie '', inlinePart ''image/png'' ''AAAA'', textPart ''chart''],
       responseText = None\<rparr>) = ''Pie chart'' \<and>
   generatedImage (imageResult \<lparr>candidateParts =
       Some [textPart ''Pie '', inlinePart ''image/png'' ''AAAA'', textPart ''chart''],
       responseText = None\<rparr>) = Some ''data:image/png;base64,AAAA'' \<and>
   respText (imageResult \<lparr>candidateParts = Some [inlinePart ''image/png'' ''AAAA''],
       responseText = None\<rparr>) = ''Here is the visual representation you requested.'' \<and>
   respText (imageResult \<lparr>candidateParts = None, responseText = None\<rparr>)
     = ''Here is the visual representation you requested.''"
  using
    image_result_parts [of "\<lparr>candidateParts =
       Some [textPart ''Pie '', inlinePart ''image/png'' ''AAAA'', textPart ''chart''],
       responseText = None\<rparr>"
      "[textPart ''Pie '', inlinePart ''image/png'' ''AAAA'', textPart ''chart'']"]
    image_result_parts [of "\<lparr>candidateParts = Some [inlinePart ''image/png'' ''AAAA''],
       responseText = None\<rparr>" "[inlinePart ''image/png'' ''AAAA'']"]
    image_result_parts [of "\<lparr>candidateParts = None, responseText = None\<rparr>"]
  by (simp add: textOfParts_simps inlineImages_simps textPart_def inlinePart_def)

text \<open>
  C2 asks for the first inline image. With two images in the response the result holds
  the second, not the first.
\<close>

theorem image_result_first_counterexample:
  "generatedImage (imageResult \<lparr>candidateParts =
       Some [inlinePart ''image/png'' ''AAAA'', inlinePart ''image/png'' ''BBBB''],
       responseText = None\<rparr>) = Some ''data:image/png;base64,BBBB'' \<and>
   generatedImage (imageResult \<lparr>candidateParts =
       Some [inlinePart ''image/png'' ''AAAA'', inlinePart ''image/png'' ''BBBB''],
       responseText = None\<rparr>) \<noteq> Some ''data:image/png;base64,AAAA''"
  by (simp add: imageResult_def imageStep_def inlinePart_def)

section \<open>Routing a draft\<close>

lemma replace_prefix: "prefix pat s \<Longrightarrow> replace s pat rep = rep @ drop (length pat) s"
  by (cases s) auto

text \<open>
  C1, as the code has it. With no subject selected, a draft takes the image generation
  flow exactly when it starts with \<open>Generate Image:\<close> (a space after the colon is not
  required), and the image prompt is the rest of the draft with surrounding white space
  trimmed. Every other draft, one that starts with \<open>Exam Note: \<close> included, takes the
  standard chat flow with the draft as its prompt; the code has no route of its own for
  exam notes.
\<close>

theorem route_by_prefix:
  "requestIntent (promptContext None draft) =
     (if startsWith draft ''Generate Image:''
      then ImageGeneration (trim (substring draft (length ''Generate Image:'')))
      else StandardChat) \<and>
   sendMessageToGemini td backend (promptContext None draft) history att =
     tryCatch
       (if startsWith draft ''Generate Image:''
        then imageFlow backend (trim (substring draft (length ''Generate Image:'')))
        else chatFlow td backend draft history att)
       (\<lambda>e. Inr \<lparr>respText = ''I encountered an error while processing your request. Please try again.'',
                  generatedImage = None\<rparr>)"
  by (simp add: requestIntent_def promptContext_def sendMessageToGemini_def startsWith_def
      substring_def replace_prefix)

text \<open>An image request, an exam note and a plain question.\<close>

theorem route_by_prefix_witness:
  "requestIntent (promptContext None ''Generate Image: pie chart of expenses'')
     = ImageGeneration ''pie chart of expenses'' \<and>
   requestIntent (promptContext None ''Exam Note: accruals'') = StandardChat \<and>
   requestIntent (promptContext None ''What is goodwill?'') = StandardChat"
  using route_by_prefix [THEN conjunct1, of "''Generate Image: pie chart of expenses''"]
    route_by_prefix [THEN conjunct1, of "''Exam Note: accruals''"]
    route_by_prefix [THEN conjunct1, of "''What is goodwill?''"]
  by (simp add: startsWith_def substring_def trim_def isWhiteSpace_def)

text \<open>
  C1 as stated fails twice. A draft that lacks the space after the colon does not start
  with \<open>Generate Image: \<close> and is routed to image generation all the same. And with a
  subject selected, a draft that does start with \<open>Generate Image: \<close> goes to the
  standard flow, because the subject tag is put in front before the test.
\<close>

theorem route_counterexample:
  "requestIntent (promptContext None ''Generate Image:pie'') = ImageGeneration ''pie'' \<and>
   \<not> startsWith ''Generate Image:pie'' ''Generate Image: '' \<and>
   requestIntent (promptContext (Some ''Taxation'') ''Generate Image: pie'') = StandardChat \<and>
   startsWith ''Generate Image: pie'' ''Generate Image: ''"
  by (simp add: requestIntent_def promptContext_def startsWith_def trim_def isWhiteSpace_def)

section \<open>Decoding and assembling attachments\<close>

lemma decodeBase64Text_total: "\<exists>s. decodeBase64Text td b = Inr s"
  by (simp add: decodeBase64Text_def tryCatch_def andThen_def split: sum.splits)

lemma historyParts_total: "\<exists>ps. historyParts td msg = Inr ps"
  using decodeBase64Text_total [of td "base64Data (data (the (attachment msg)))"]
  by (auto simp add: historyParts_def andThen_def Let_def split: option.splits)

lemma historyContents_total: "\<exists>cs. historyContents td history = Inr cs"
proof (induction history)
  case Nil
  then show ?case by simp
next
  case (Cons msg rest)
  obtain ps where "historyParts td msg = Inr ps" using historyParts_total by blast
  moreover obtain cs where "historyContents td rest = Inr cs" using Cons.IH by blast
  ultimately show ?case by (simp add: andThen_def)
qed

lemma currentParts_total: "\<exists>ps. currentParts td prompt att = Inr ps"
proof (cases att)
  case None
  then show ?thesis by (simp add: currentParts_def andThen_def)
next
  case (Some a)
  then show ?thesis
    using decodeBase64Text_total [of td "base64Data (data a)"]
    by (auto simp add: currentParts_def andThen_def Let_def)
qed

text \<open>
  C7. Whatever the payload and whatever the platform's decoder does,
  \<open>decodeBase64Text\<close> returns a string and throws nothing; when \<open>atob\<close> throws, or the
  text decoder does, the string is empty. A historical message whose text-based
  attachment cannot be decoded still yields its parts, with nothing between the file
  markers, and the history and the current message always assemble.
\<close>

theorem decode_never_raises:
  "(\<exists>s. decodeBase64Text td b = Inr s) \<and>
   (atob b = Inl e \<longrightarrow> decodeBase64Text td b = Inr []) \<and>
   (atob b = Inr bin \<and> td (map of_char bin) = Inl e \<longrightarrow> decodeBase64Text td b = Inr []) \<and>
   (attachment msg = Some a \<and> isTextBased (mimeType a) \<and> atob (base64Data (data a)) = Inl e \<longrightarrow>
      historyParts td msg =
        Inr [textPart (''[Attached File: '' @ name a @ '']\<newline>'' @ [] @ ''\<newline>[End of File]''),
             textPart (msgText msg)]) \<and>
   (\<exists>cs. historyContents td history = Inr cs) \<and>
   (\<exists>ps. currentParts td prompt att = Inr ps)"
  using decodeBase64Text_total historyContents_total currentParts_total
  by (simp add: decodeBase64Text_def tryCatch_def andThen_def historyParts_def)

text \<open>
  A payload with characters outside the base64 alphabet, a payload at which the decoder
  of the example throws, and a message that carries the first.
\<close>

theorem decode_never_raises_witness:
  "atob ''%%%'' = Inl InvalidCharacterError \<and>
   decodeBase64Text decodeAscii ''%%%'' = Inr [] \<and>
   atob ''/w=='' = Inr [CHR 0xFF] \<and>
   decodeAscii (map of_char [CHR 0xFF]) = Inl TypeError \<and>
   decodeBase64Text decodeAscii ''/w=='' = Inr [] \<and>
   historyParts decodeAscii
     \<lparr>msgId = ''1'', role = User, msgText = ''sum column a'', timestamp = (),
      msgImage = None,
      attachment = Some \<lparr>data = ''data:text/csv;base64,%%%'', mimeType = ''text/csv'',
                          name = ''a.csv''\<rparr>\<rparr>
   = Inr [textPart ''[Attached File: a.csv]\<newline>\<newline>[End of File]'',
          textPart ''sum column a'']"
proof -
  have a: "atob ''%%%'' = Inl InvalidCharacterError" by code_simp
  have a': "atob ''/w=='' = Inr [CHR 0xFF]" by code_simp
  have a'': "decodeAscii (map of_char [CHR 0xFF]) = Inl TypeError" by (simp add: decodeAscii_def)
  have b: "base64Data ''data:text/csv;base64,%%%'' = ''%%%''" by (simp add: base64Data_def)
  have c: "isTextBased ''text/csv''" by (simp add: isTextBased_def startsWith_def)
  show ?thesis
    using a a' a'' b c
      decode_never_raises [of decodeAscii "''%%%''" InvalidCharacterError "[]"
        "\<lparr>msgId = ''1'', role = User, msgText = ''sum column a'', timestamp = (),
          msgImage = None,
          attachment = Some \<lparr>data = ''data:text/csv;base64,%%%'', mimeType = ''text/csv'',
                              name = ''a.csv''\<rparr>\<rparr>"
        "\<lparr>data = ''data:text/csv;base64,%%%'', mimeType = ''text/csv'', name = ''a.csv''\<rparr>"
        "[]" "[]" None]
      decode_never_raises [of decodeAscii "''/w==''" TypeError "[CHR 0xFF]"
        "\<lparr>msgId = ''1'', role = User, msgText = ''sum column a'', timestamp = (),
          msgImage = None, attachment = None\<rparr>"
        "\<lparr>data = [], mimeType = [], name = []\<rparr>" "[]" "[]" None]
    by simp
qed

text \<open>
  C4, as the code has it. For a text-based attachment with name \<open>n\<close> and decoded
  content \<open>c\<close>, a historical message yields one text part
  \<open>[Attached File: n]\<close>, a line break, \<open>c\<close>, a line break, \<open>[End of File]\<close>, followed
  by the part with the message's own text. The current message yields the same text
  followed by two more line breaks, then the part with the prompt. Every part is a
  text part; none carries inline data.
\<close>

theorem textual_attachment_parts:
  assumes "isTextBased (mimeType a)"
    and "decodeBase64Text td (base64Data (data a)) = Inr c"
  shows "(attachment msg = Some a \<longrightarrow>
            historyParts td msg =
              Inr [textPart (''[Attached File: '' @ name a @ '']\<newline>'' @ c
                             @ ''\<newline>[End of File]''),
                   textPart (msgText msg)]) \<and>
         currentParts td prompt (Some a) =
           Inr [textPart (''[Attached File: '' @ name a @ '']\<newline>'' @ c
                          @ ''\<newline>[End of File]\<newline>\<newline>''),
                textPart prompt]"
  using assms by (simp add: historyParts_def currentParts_def andThen_def)

text \<open>A small table attached as CSV, in the history and on the current message.\<close>

theorem textual_attachment_parts_witness:
  "isTextBased ''text/csv'' \<and>
   decodeBase64Text decodeAscii (base64Data ''data:text/csv;base64,YSxiCjEsMg=='')
     = Inr ''a,b\<newline>1,2'' \<and>
   historyParts decodeAscii
     \<lparr>msgId = ''1'', role = User, msgText = ''sum column a'', timestamp = (),
      msgImage = None,
      attachment = Some \<lparr>data = ''data:text/csv;base64,YSxiCjEsMg=='', mimeType = ''text/csv'',
                          name = ''t.csv''\<rparr>\<rparr>
     = Inr [textPart ''[Attached File: t.csv]\<newline>a,b\<newline>1,2\<newline>[End of File]'',
            textPart ''sum column a''] \<and>
   currentParts decodeAscii ''sum column a''
     (Some \<lparr>data = ''data:text/csv;base64,YSxiCjEsMg=='', mimeType = ''text/csv'',
            name = ''t.csv''\<rparr>)
     = Inr [textPart
              ''[Attached File: t.csv]\<newline>a,b\<newline>1,2\<newline>[End of File]\<newline>\<newline>'',
            textPart ''sum column a'']"
proof -
  have b: "base64Data ''data:text/csv;base64,YSxiCjEsMg=='' = ''YSxiCjEsMg==''"
    by (simp add: base64Data_def)
  have c: "isTextBased ''text/csv''" by (simp add: isTextBased_def startsWith_def)
  have d: "decodeBase64Text decodeAscii ''YSxiCjEsMg=='' = Inr ''a,b\<newline>1,2''" by code_simp
  show ?thesis
    using b c d
      textual_attachment_parts [of
        "\<lparr>data = ''data:text/csv;base64,YSxiCjEsMg=='', mimeType = ''text/csv'',
          name = ''t.csv''\<rparr>"
        decodeAscii "''a,b\<newline>1,2''"
        "\<lparr>msgId = ''1'', role = User, msgText = ''sum column a'', timestamp = (),
          msgImage = None,
          attachment = Some \<lparr>data = ''data:text/csv;base64,YSxiCjEsMg=='',
                              mimeType = ''text/csv'', name = ''t.csv''\<rparr>\<rparr>"
        "''sum column a''"]
    by simp
qed

text \<open>
  C4 asks the current message for the very format of the history. The part of the
  current message ends in two more line breaks, so it is not that string.
\<close>

theorem textual_attachment_counterexample:
  "isTextBased ''text/plain'' \<and>
   decodeBase64Text decodeAscii (base64Data ''data:text/plain;base64,aGk='') = Inr ''hi'' \<and>
   currentParts decodeAscii ''sum''
       (Some \<lparr>data = ''data:text/plain;base64,aGk='', mimeType = ''text/plain'',
              name = ''a.txt''\<rparr>)
     \<noteq> Inr [textPart (''[Attached File: '' @ ''a.txt'' @ '']\<newline>'' @ ''hi''
                      @ ''\<newline>[End of File]''),
            textPart ''sum'']"
proof -
  have b: "base64Data ''data:text/plain;base64,aGk='' = ''aGk=''" by (simp add: base64Data_def)
  have c: "isTextBased ''text/plain''" by (simp add: isTextBased_def startsWith_def)
  have d: "decodeBase64Text decodeAscii ''aGk='' = Inr ''hi''" by code_simp
  show ?thesis using b c d by (simp add: currentParts_def andThen_def textPart_def)
qed

section \<open>Searching the messages\<close>

text \<open>\<open>includes\<close> holds exactly of the substrings.\<close>

lemma includes_str_sublist: "includes_str s t \<longleftrightarrow> sublist t s"
  by (induction s) (simp_all add: sublist_Cons_right)

lemma prefix_iff_take: "prefix t s \<longleftrightarrow> take (length t) s = t"
  by (metis append_eq_conv_conj prefix_def take_is_prefix)

text \<open>\<open>includes\<close> finds the term at some position of the text.\<close>

lemma includes_str_iff:
  "includes_str s t \<longleftrightarrow> (\<exists>i\<le>length s. take (length t) (drop i s) = t)"
proof (induction s)
  case Nil
  then show ?case by auto
next
  case (Cons c cs)
  have "(\<exists>i\<le>length (c # cs). take (length t) (drop i (c # cs)) = t) \<longleftrightarrow>
        take (length t) (c # cs) = t \<or> (\<exists>i\<le>length cs. take (length t) (drop i cs) = t)"
    (is "?L \<longleftrightarrow> ?A \<or> ?B")
  proof
    assume ?L
    then obtain i where i: "i \<le> length (c # cs)" "take (length t) (drop i (c # cs)) = t" by blast
    show "?A \<or> ?B"
    proof (cases i)
      case 0
      then show ?thesis using i by simp
    next
      case (Suc j)
      then have "j \<le> length cs" "take (length t) (drop j cs) = t" using i by simp_all
      then show ?thesis by blast
    qed
  next
    assume "?A \<or> ?B"
    then show ?L
    proof
      assume ?A
      then have "take (length t) (drop 0 (c # cs)) = t" by simp
      then show ?L by blast
    next
      assume ?B
      then obtain j where "j \<le> length cs" "take (length t) (drop j cs) = t" by blast
      then have "Suc j \<le> length (c # cs)" "take (length t) (drop (Suc j) (c # cs)) = t" by simp_all
      then show ?L by blast
    qed
  qed
  then show ?case using Cons.IH by (simp add: prefix_iff_take)
qed

lemma list_ex_upto: "list_ex P [0 ..< Suc n] \<longleftrightarrow> (\<exists>i\<le>n. P i)"
proof -
  have "list_ex P [0 ..< Suc n] \<longleftrightarrow> (\<exists>i\<in>{0 ..< Suc n}. P i)"
    by (simp only: list_ex_iff set_upt)
  also have "\<dots> \<longleftrightarrow> (\<exists>i\<le>n. P i)"
    by (meson atLeastLessThan_iff less_Suc_eq_le zero_le)
  finally show ?thesis .
qed

text \<open>
  Lower-casing code unit by code unit, containing the lower-cased term is containing the
  term as a case-insensitive substring.
\<close>

lemma ciContains_iff:
  "ciContains txt t \<longleftrightarrow> includes_str (toLowerCase txt) (toLowerCase t)"
proof -
  have "ciContains txt t \<longleftrightarrow>
        (\<exists>i\<le>length txt. toLowerCase (take (length t) (drop i txt)) = toLowerCase t)"
    unfolding ciContains_def by (rule list_ex_upto)
  also have "\<dots> \<longleftrightarrow>
        (\<exists>i\<le>length (toLowerCase txt).
           take (length (toLowerCase t)) (drop i (toLowerCase txt)) = toLowerCase t)"
    by (simp add: toLowerCase_def take_map drop_map)
  also have "\<dots> \<longleftrightarrow> includes_str (toLowerCase txt) (toLowerCase t)"
    by (simp only: includes_str_iff)
  finally show ?thesis .
qed

lemma trim_Nil: "trim [] = []" by (simp add: trim_def)

text \<open>
  C9, as the code has it. When the search term is empty or consists of white space only,
  all messages are shown, unchanged and in order. Otherwise exactly those messages are
  shown, in their order, whose text in lower case has the term (as typed, not trimmed)
  in lower case as a substring; this holds whatever the platform's lower-casing
  function does. Where lower-casing acts code unit by code unit, as it does on strings of
  code units below 256, these are the messages whose text contains the term as a
  case-insensitive substring.
\<close>

theorem displayed_messages_filter:
  "displayedMessages lower t ms =
     (if trim t = [] then ms
      else filter (\<lambda>msg. sublist (lower t) (lower (msgText msg))) ms) \<and>
   displayedMessages lower [] ms = ms \<and>
   displayedMessages toLowerCase t ms =
     (if trim t = [] then ms else filter (\<lambda>msg. ciContains (msgText msg) t) ms)"
  by (simp add: displayedMessages_def ciContains_iff includes_str_sublist trim_Nil)

text \<open>A search for a word that one of two messages has, in another case.\<close>

theorem displayed_messages_filter_witness:
  "displayedMessages toLowerCase ''depreciation''
     [\<lparr>msgId = ''1'', role = User, msgText = ''What is Depreciation?'', timestamp = (),
       msgImage = None, attachment = None\<rparr>,
      \<lparr>msgId = ''2'', role = Model, msgText = ''A cost spread over years'', timestamp = (),
       msgImage = None, attachment = None\<rparr>]
   = [\<lparr>msgId = ''1'', role = User, msgText = ''What is Depreciation?'', timestamp = (),
       msgImage = None, attachment = None\<rparr>]"
proof -
  have a: "trim ''depreciation'' \<noteq> []" by (simp add: trim_def isWhiteSpace_def)
  have b: "ciContains ''What is Depreciation?'' ''depreciation''" by code_simp
  have c: "\<not> ciContains ''A cost spread over years'' ''depreciation''" by code_simp
  show ?thesis
    using a b c displayed_messages_filter [THEN conjunct2, THEN conjunct2, of "''depreciation''"
     "[\<lparr>msgId = ''1'', role = User, msgText = ''What is Depreciation?'', timestamp = (),
       msgImage = None, attachment = None\<rparr>,
      \<lparr>msgId = ''2'', role = Model, msgText = ''A cost spread over years'', timestamp = (),
       msgImage = None, attachment = None\<rparr>]"]
    by simp
qed

text \<open>
  C9 as stated filters by every non-empty term. A term of one space is not empty and the
  text \<open>abc\<close> does not contain it, yet the message is shown.
\<close>

theorem displayed_messages_counterexample:
  "'' '' \<noteq> [] \<and>
   \<not> ciContains ''abc'' '' '' \<and>
   \<not> sublist '' '' ''abc'' \<and>
   displayedMessages toLowerCase '' ''
     [\<lparr>msgId = ''1'', role = User, msgText = ''abc'', timestamp = (),
       msgImage = None, attachment = None\<rparr>]
   = [\<lparr>msgId = ''1'', role = User, msgText = ''abc'', timestamp = (),
       msgImage = None, attachment = None\<rparr>]"
proof -
  have a: "trim '' '' = []" by (simp add: trim_def isWhiteSpace_def)
  have b: "\<not> ciContains ''abc'' '' ''" by code_simp
  have c: "\<not> sublist '' '' ''abc''" by code_simp
  show ?thesis using a b c by (simp add: displayedMessages_def)
qed

section \<open>Restoring and leaving a session\<close>

lemma initialState_cases:
  "initialState newDate JSON_parse storage =
     (case storage STORAGE_KEY of
        None \<Rightarrow> emptyState
      | Some saved \<Rightarrow>
          if saved = [] then emptyState
          else (case JSON_parse saved of
                  Inl e \<Rightarrow> emptyState
                | Inr parsed \<Rightarrow>
                    \<lparr>messages = map (restoreMessage newDate) (messages parsed),
                     isLoading = False, selectedSubject = selectedSubject parsed\<rparr>))"
  by (simp add: initialState_def tryCatch_def andThen_def split: option.splits sum.splits)

text \<open>
  C8. The restored state is never loading, whatever the snapshot says. When the stored
  text is not empty and parses, the messages are those of the snapshot, each with its
  timestamp string turned into a date by \<open>new Date\<close> and every other field as stored,
  and the subject is the stored one. When nothing is stored, or the stored text is empty
  or does not parse, the state is the empty one.
\<close>

theorem restore_forces_idle:
  "isLoading (initialState newDate JSON_parse storage) = False \<and>
   (storage STORAGE_KEY = Some saved \<and> saved \<noteq> [] \<and> JSON_parse saved = Inr parsed \<longrightarrow>
      initialState newDate JSON_parse storage =
        \<lparr>messages = map (restoreMessage newDate) (messages parsed),
         isLoading = False, selectedSubject = selectedSubject parsed\<rparr>) \<and>
   (timestamp (restoreMessage newDate msg) = newDate (timestamp msg) \<and>
    msgId (restoreMessage newDate msg) = msgId msg \<and>
    role (restoreMessage newDate msg) = role msg \<and>
    msgText (restoreMessage newDate msg) = msgText msg \<and>
    msgImage (restoreMessage newDate msg) = msgImage msg \<and>
    attachment (restoreMessage newDate msg) = attachment msg) \<and>
   (storage STORAGE_KEY = None \<or> storage STORAGE_KEY = Some [] \<or>
    (storage STORAGE_KEY = Some saved \<and> JSON_parse saved = Inl e) \<longrightarrow>
      initialState newDate JSON_parse storage = emptyState)"
  by (auto simp add: initialState_cases emptyState_def restoreMessage_def
      split: option.splits sum.splits)

text \<open>
  A snapshot that was written while a request was in flight, and a snapshot that is cut
  short. Dates are numbers here and \<open>new Date\<close> is the length of the string.
\<close>

theorem restore_forces_idle_witness:
  "initialState length
     (\<lambda>s. if s = ''{snapshot}''
           then Inr \<lparr>messages = [\<lparr>msgId = ''1'', role = User, msgText = ''hello'',
                                    timestamp = ''2024-01-01T00:00:00.000Z'', msgImage = None,
                                    attachment = None\<rparr>],
                     isLoading = True, selectedSubject = Some ''Taxation''\<rparr>
           else Inl SyntaxError)
     [STORAGE_KEY \<mapsto> ''{snapshot}'']
   = \<lparr>messages = [\<lparr>msgId = ''1'', role = User, msgText = ''hello'', timestamp = 24,
                    msgImage = None, attachment = None\<rparr>],
      isLoading = False, selectedSubject = Some ''Taxation''\<rparr> \<and>
   initialState length
     (\<lambda>s. if s = ''{snapshot}''
           then Inr \<lparr>messages = [\<lparr>msgId = ''1'', role = User, msgText = ''hello'',
                                    timestamp = ''2024-01-01T00:00:00.000Z'', msgImage = None,
                                    attachment = None\<rparr>],
                     isLoading = True, selectedSubject = Some ''Taxation''\<rparr>
           else Inl SyntaxError)
     [STORAGE_KEY \<mapsto> ''{snap'']
   = emptyState"
  using
    restore_forces_idle [of length
     "(\<lambda>s. if s = ''{snapshot}''
           then Inr \<lparr>messages = [\<lparr>msgId = ''1'', role = User, msgText = ''hello'',
                                    timestamp = ''2024-01-01T00:00:00.000Z'', msgImage = None,
                                    attachment = None\<rparr>],
                     isLoading = True, selectedSubject = Some ''Taxation''\<rparr>
           else Inl SyntaxError)"
     "[STORAGE_KEY \<mapsto> ''{snapshot}'']" "''{snapshot}''"
     "\<lparr>messages = [\<lparr>msgId = ''1'', role = User, msgText = ''hello'',
                                    timestamp = ''2024-01-01T00:00:00.000Z'', msgImage = None,
                                    attachment = None\<rparr>],
                     isLoading = True, selectedSubject = Some ''Taxation''\<rparr>"
     "\<lparr>msgId = ''1'', role = User, msgText = ''hello'',
                                    timestamp = ''2024-01-01T00:00:00.000Z'', msgImage = None,
                                    attachment = None\<rparr>" SyntaxError]
    restore_forces_idle [of length
     "(\<lambda>s. if s = ''{snapshot}''
           then Inr \<lparr>messages = [\<lparr>msgId = ''1'', role = User, msgText = ''hello'',
                                    timestamp = ''2024-01-01T00:00:00.000Z'', msgImage = None,
                                    attachment = None\<rparr>],
                     isLoading = True, selectedSubject = Some ''Taxation''\<rparr>
           else Inl SyntaxError)"
     "[STORAGE_KEY \<mapsto> ''{snap'']" "''{snap''"
     "\<lparr>messages = [], isLoading = True, selectedSubject = None\<rparr>"
     "\<lparr>msgId = ''1'', role = User, msgText = ''hello'',
                                    timestamp = ''2024-01-01T00:00:00.000Z'', msgImage = None,
                                    attachment = None\<rparr>" SyntaxError]
  by (simp add: restoreMessage_def)

text \<open>
  Writing a state and reading it back, when the platform's functions are inverse to
  each other on it.
\<close>

lemma restore_stored_message:
  "newDate (toJSON (timestamp msg)) = timestamp msg \<Longrightarrow>
   restoreMessage newDate (storedMessage toJSON msg) = msg"
  by (simp add: restoreMessage_def storedMessage_def)

lemma restore_stored_messages:
  "\<forall>msg\<in>set msgs. newDate (toJSON (timestamp msg)) = timestamp msg \<Longrightarrow>
   map (restoreMessage newDate \<circ> storedMessage toJSON) msgs = msgs"
  by (induction msgs) (simp_all add: restore_stored_message)

lemma restore_after_autosave:
  assumes "JSON_stringify st \<noteq> []"
    and "JSON_parse (JSON_stringify st) = Inr (storedState toJSON st)"
    and "\<forall>msg\<in>set (messages st). newDate (toJSON (timestamp msg)) = timestamp msg"
  shows "initialState newDate JSON_parse (storage(STORAGE_KEY \<mapsto> JSON_stringify st))
           = st\<lparr>isLoading := False\<rparr>"
  using assms
  by (cases st) (simp add: initialState_cases storedState_def restore_stored_messages)

text \<open>
  C10. \<open>goHome\<close> empties the messages and clears the subject and leaves the storage as
  it is, whereas a confirmed \<open>resetChat\<close> removes the snapshot; an autosave that fires
  after \<open>goHome\<close> writes nothing, so a restart reads what it would have read before.
  When a session with messages has been saved and \<open>goHome\<close> is performed, and the
  platform reads back what it wrote, the next start restores that session, messages and
  subject, with the loading flag off.
\<close>

theorem goHome_keeps_snapshot:
  "localStorage (goHome a) = localStorage a \<and>
   messages (state (goHome a)) = [] \<and>
   selectedSubject (state (goHome a)) = None \<and>
   localStorage (resetChat True a) STORAGE_KEY = None \<and>
   localStorage (autosaveTick JSON_stringify (goHome a)) = localStorage a \<and>
   initialState newDate JSON_parse (localStorage (goHome a))
     = initialState newDate JSON_parse (localStorage a) \<and>
   (messages (state a) \<noteq> [] \<and> JSON_stringify (state a) \<noteq> [] \<and>
    JSON_parse (JSON_stringify (state a)) = Inr (storedState toJSON (state a)) \<and>
    (\<forall>msg\<in>set (messages (state a)). newDate (toJSON (timestamp msg)) = timestamp msg) \<longrightarrow>
      initialState newDate JSON_parse
          (localStorage (goHome (autosaveTick JSON_stringify a)))
        = (state a)\<lparr>isLoading := False\<rparr>)"
  by (auto simp add: goHome_def resetChat_def autosaveTick_def restore_after_autosave)

text \<open>
  One saved question on taxation. Dates are their own serialised form here.
\<close>

theorem goHome_keeps_snapshot_witness:
  "(let st = \<lparr>messages = [\<lparr>msgId = ''1'', role = User, msgText = ''hello'',
                              timestamp = ''2024-01-01T00:00:00.000Z'', msgImage = None,
                              attachment = None\<rparr>],
               isLoading = True, selectedSubject = Some ''Taxation''\<rparr>;
        a = \<lparr>state = st, searchTerm = ''he'', localStorage = Map.empty\<rparr>;
        saved = autosaveTick (\<lambda>s. ''{snapshot}'') a
    in messages (state (goHome saved)) = [] \<and>
       localStorage (goHome saved) STORAGE_KEY = Some ''{snapshot}'' \<and>
       localStorage (resetChat True saved) STORAGE_KEY = None \<and>
       initialState (\<lambda>s. s) (\<lambda>s. Inr st) (localStorage (goHome saved))
         = st\<lparr>isLoading := False\<rparr>)"
  using goHome_keeps_snapshot [of
      "autosaveTick (\<lambda>s. ''{snapshot}'')
         \<lparr>state = \<lparr>messages = [\<lparr>msgId = ''1'', role = User, msgText = ''hello'',
                              timestamp = ''2024-01-01T00:00:00.000Z'', msgImage = None,
                              attachment = None\<rparr>],
               isLoading = True, selectedSubject = Some ''Taxation''\<rparr>,
           searchTerm = ''he'', localStorage = Map.empty\<rparr>"
      "\<lambda>s. ''{snapshot}''" "\<lambda>s. s"
      "\<lambda>s. Inr \<lparr>messages = [\<lparr>msgId = ''1'', role = User, msgText = ''hello'',
                              timestamp = ''2024-01-01T00:00:00.000Z'', msgImage = None,
                              attachment = None\<rparr>],
               isLoading = True, selectedSubject = Some ''Taxation''\<rparr>"
      "\<lambda>d. d"]
    goHome_keeps_snapshot [of
      "\<lparr>state = \<lparr>messages = [\<lparr>msgId = ''1'', role = User, msgText = ''hello'',
                              timestamp = ''2024-01-01T00:00:00.000Z'', msgImage = None,
                              attachment = None\<rparr>],
               isLoading = True, selectedSubject = Some ''Taxation''\<rparr>,
           searchTerm = ''he'', localStorage = Map.empty\<rparr>"
      "\<lambda>s. ''{snapshot}''" "\<lambda>s. s"
      "\<lambda>s. Inr \<lparr>messages = [\<lparr>msgId = ''1'', role = User, msgText = ''hello'',
                              timestamp = ''2024-01-01T00:00:00.000Z'', msgImage = None,
                              attachment = None\<rparr>],
               isLoading = True, selectedSubject = Some ''Taxation''\<rparr>"
      "\<lambda>d. d"]
  by (simp add: Let_def autosaveTick_def storedState_def storedMessage_def)

end
